theory Spec2Isabelle
  imports Complex_Main "HOL-Library.List_Lexorder" "HOL-Library.Char_ord"
begin

section \<open>SavedModel predictors (predictors/saved\_model\_v2\_predictor.py)\<close>

text \<open>
  A shallow embedding of the three predictor classes of the module:
  \<^verbatim>\<open>SavedModelPredictorBase\<close>, \<^verbatim>\<open>SavedModelTF2Predictor\<close> (eager mode) and
  \<^verbatim>\<open>SavedModelTF1Predictor\<close> (graph mode). An instance is a record of its attributes,
  a method takes the instance and returns its result together with the instance after
  the call, and a raised exception is the left summand of the result. Everything the
  module obtains from outside (the clock, the file system, the export loader, the
  inference runtime, the graph session) is a field of an environment record, so that
  every statement holds for every behaviour of these collaborators.
\<close>

subsection \<open>Python values, exceptions\<close>

datatype error =
    ValueError string
  | AttributeError string
  | TypeError string
  | NotImplementedError string
  | OtherError string

text \<open>What \<^verbatim>\<open>restore\<close> and \<^verbatim>\<open>close\<close> return: a boolean, or \<^verbatim>\<open>None\<close>.\<close>

datatype pyval = PyBool bool | PyNone

type_synonym 'a result = "error + 'a"

subsection \<open>Tensors, specifications, structures\<close>

text \<open>
  A tensor is known by its shape and its elements. A numpy array and an eager tensor
  have a fully known shape; a tensor of a graph (a placeholder, a symbolic output) may
  have unknown dimensions, which Python writes \<^verbatim>\<open>None\<close>.
\<close>

datatype tensor =
    is_NdArray: NdArray (dims: "nat list") (elems: "int list")
  | is_EagerTensor: EagerTensor (dims: "nat list") (elems: "int list")
  | is_GraphTensor: GraphTensor (graph_dims: "nat option list") (tensor_name: string)

text \<open>\<^verbatim>\<open>list(f.shape)\<close>\<close>

fun shape_list :: "tensor \<Rightarrow> nat option list" where
  "shape_list (NdArray s _) = map Some s"
| "shape_list (EagerTensor s _) = map Some s"
| "shape_list (GraphTensor s _) = s"

text \<open>
  \<^verbatim>\<open>np.expand_dims(f, 0)\<close>: the array with one more leading dimension, of size 1, and
  the same elements. An eager tensor is converted to an array first; a tensor of a graph
  has no value to convert.
\<close>

fun expand_dims :: "tensor \<Rightarrow> tensor result" where
  "expand_dims (NdArray s xs) = Inr (NdArray (1 # s) xs)"
| "expand_dims (EagerTensor s xs) = Inr (NdArray (1 # s) xs)"
| "expand_dims (GraphTensor s n) =
     Inl (NotImplementedError ''Cannot convert a symbolic Tensor to a numpy array.'')"

text \<open>\<^verbatim>\<open>t.numpy()\<close>: only the runtime's eager tensors have the method.\<close>

fun numpy :: "tensor \<Rightarrow> tensor result" where
  "numpy (EagerTensor s xs) = Inr (NdArray s xs)"
| "numpy (NdArray s xs) = Inl (AttributeError ''numpy'')"
| "numpy (GraphTensor s n) = Inl (AttributeError ''numpy'')"

text \<open>
  A tensor specification: the per-example shape, \<^verbatim>\<open>None\<close> when even the rank is unknown,
  and the dtype.
\<close>

record tensor_spec =
  spec_shape :: "nat option list option"
  spec_dtype :: string

text \<open>\<^verbatim>\<open>spec.shape.as_list()\<close> raises ValueError on a shape of unknown rank.\<close>

definition as_list :: "tensor_spec \<Rightarrow> nat option list result" where
  "as_list spec =
     (case spec_shape spec of
        None \<Rightarrow> Inl (ValueError ''as_list() is not defined on an unknown TensorShape.'')
      | Some ds \<Rightarrow> Inr ds)"

text \<open>
  A structure is a mapping from field names to leaves, kept as an association list in
  the order of the mapping's keys.
\<close>

type_synonym 'a struct = "(string \<times> 'a) list"

text \<open>
  Applying a function to the leaves of a structure one after the other, in the order of
  the list; the first exception leaves the traversal.
\<close>

fun map_leaves :: "('a \<Rightarrow> 'b result) \<Rightarrow> 'a struct \<Rightarrow> 'b struct result" where
  "map_leaves fn [] = Inr []"
| "map_leaves fn ((k, x) # rest) =
     (case fn x of
        Inl e \<Rightarrow> Inl e
      | Inr y \<Rightarrow>
          (case map_leaves fn rest of
             Inl e \<Rightarrow> Inl e
           | Inr ys \<Rightarrow> Inr ((k, y) # ys)))"

text \<open>
  \<^verbatim>\<open>tf.nest.map_structure(fn, s)\<close>: \<^verbatim>\<open>fn\<close> is applied to the leaves in the order of the
  sorted keys (strings compare by code point), so the exception that leaves the call is
  that of the first failing leaf in that order; the result has the keys of \<open>s\<close> in the
  order of \<open>s\<close>, each leaf replaced by \<^verbatim>\<open>fn(leaf)\<close>.
\<close>

definition map_structure :: "('a \<Rightarrow> 'b result) \<Rightarrow> 'a struct \<Rightarrow> 'b struct result" where
  "map_structure fn s =
     (case map_leaves fn (sort_key fst s) of
        Inl e \<Rightarrow> Inl e
      | Inr _ \<Rightarrow> map_leaves fn s)"

text \<open>
  \<^verbatim>\<open>tf.nest.map_structure(fn, s, t)\<close>: the two mappings must have the same set of keys
  (ValueError otherwise, before \<^verbatim>\<open>fn\<close> is applied at all); \<^verbatim>\<open>fn\<close> is then applied in
  the order of the sorted keys to the leaves of \<open>s\<close> and \<open>t\<close> under the same key; the
  result has the keys of the first in its order, each leaf replaced by
  \<^verbatim>\<open>fn(leaf_s, leaf_t)\<close>. \<open>map_pairs\<close> is the traversal in the order of a list.
\<close>

fun map_pairs :: "('a \<Rightarrow> 'b \<Rightarrow> 'c result) \<Rightarrow> 'a struct \<Rightarrow> 'b struct \<Rightarrow> 'c struct result" where
  "map_pairs fn [] t = Inr []"
| "map_pairs fn ((k, x) # rest) t =
     (case map_of t k of
        None \<Rightarrow> Inl (ValueError ''The two structures don't have the same nested structure.'')
      | Some y \<Rightarrow>
          (case fn x y of
             Inl e \<Rightarrow> Inl e
           | Inr z \<Rightarrow>
               (case map_pairs fn rest t of
                  Inl e \<Rightarrow> Inl e
                | Inr zs \<Rightarrow> Inr ((k, z) # zs))))"

definition map_structure2 ::
  "('a \<Rightarrow> 'b \<Rightarrow> 'c result) \<Rightarrow> 'a struct \<Rightarrow> 'b struct \<Rightarrow> 'c struct result" where
  "map_structure2 fn s t =
     (if set (map fst s) \<noteq> set (map fst t)
      then Inl (ValueError ''The two structures don't have the same nested structure.'')
      else
        (case map_pairs fn (sort_key fst s) t of
           Inl e \<Rightarrow> Inl e
         | Inr _ \<Rightarrow> map_pairs fn s t))"

subsection \<open>Paths\<close>

text \<open>\<^verbatim>\<open>os.path.join(a, b)\<close> and \<^verbatim>\<open>os.path.basename(p)\<close> of posixpath.\<close>

definition path_join :: "string \<Rightarrow> string \<Rightarrow> string" where
  "path_join a b =
     (if b \<noteq> [] \<and> hd b = CHR ''/'' then b
      else if a = [] \<or> last a = CHR ''/'' then a @ b
      else a @ ''/'' @ b)"

definition basename :: "string \<Rightarrow> string" where
  "basename p = rev (takeWhile (\<lambda>c. c \<noteq> CHR ''/'') (rev p))"

text \<open>
  \<^verbatim>\<open>int(s)\<close> of a Python string, base 10: white space is stripped at both ends, one
  sign may lead, and the digits may be separated by single underscores. A character is
  a code point below 256 here, where the white space \<^verbatim>\<open>int\<close> skips is the characters 9 to
  13, 32, 133 and 160, and the only decimal digits are 0 to 9.
\<close>

definition is_space :: "char \<Rightarrow> bool" where
  "is_space c =
     (let n = (of_char c :: nat)
      in (9 \<le> n \<and> n \<le> 13) \<or> n = 32 \<or> n = 133 \<or> n = 160)"

definition is_digit :: "char \<Rightarrow> bool" where
  "is_digit c = (let n = (of_char c :: nat) in 48 \<le> n \<and> n \<le> 57)"

definition digit_val :: "char \<Rightarrow> nat" where
  "digit_val c = of_char c - 48"

definition strip :: "string \<Rightarrow> string" where
  "strip s = rev (dropWhile is_space (rev (dropWhile is_space s)))"

fun parse_digits :: "nat \<Rightarrow> string \<Rightarrow> nat option" where
  "parse_digits acc [] = Some acc"
| "parse_digits acc [c] =
     (if is_digit c then Some (10 * acc + digit_val c) else None)"
| "parse_digits acc (c # d # cs) =
     (if is_digit c then parse_digits (10 * acc + digit_val c) (d # cs)
      else if c = CHR ''_'' \<and> is_digit d then parse_digits (10 * acc + digit_val d) cs
      else None)"

definition parse_unsigned :: "string \<Rightarrow> nat option" where
  "parse_unsigned s =
     (case s of
        [] \<Rightarrow> None
      | c # cs \<Rightarrow> if is_digit c then parse_digits (digit_val c) cs else None)"

definition py_int :: "string \<Rightarrow> int result" where
  "py_int s =
     (let t = strip s;
          sgn = (if t \<noteq> [] \<and> hd t = CHR ''-'' then - 1 else 1 :: int);
          body = (if t \<noteq> [] \<and> (hd t = CHR ''-'' \<or> hd t = CHR ''+'') then tl t else t)
      in case parse_unsigned body of
           None \<Rightarrow> Inl (ValueError ''invalid literal for int() with base 10'')
         | Some n \<Rightarrow> Inr (sgn * int n))"

subsection \<open>The collaborators\<close>

text \<open>
  The loaded model of the inference runtime: what \<^verbatim>\<open>self._model.predict\<close> and
  \<^verbatim>\<open>self._model.global_step\<close> answer.
\<close>

record model_handle =
  model_predict :: "tensor struct \<Rightarrow> tensor struct result"
  model_global_step :: "tensor result"

record t2r_assets =
  assets_feature_spec :: "tensor_spec struct"
  assets_label_spec :: "tensor_spec struct"

datatype event =
    LogInfo string string
  | LogWarning string real
  | ExistsCall string
  | Sleep real

text \<open>
  The world \<^verbatim>\<open>restore\<close> runs in. \<open>clock w k\<close> is what the \<open>k\<close>-th call of
  \<^verbatim>\<open>time.time()\<close> returns and \<open>reads\<close> counts the calls made so far;
  \<open>file_exists w k f\<close> is what \<^verbatim>\<open>tf.io.gfile.exists(f)\<close> answers after \<open>k\<close> readings
  of the clock; the three loaders are \<^verbatim>\<open>tensorspec_utils.load_t2r_assets_to_file\<close>,
  \<^verbatim>\<open>TensorSpecStruct.from_proto\<close> and \<^verbatim>\<open>tf.saved_model.load\<close>; \<open>trace\<close> records the
  log lines, the file checks and the sleeps in the order they happen. Seconds are
  real numbers; \<open>float_sub w a b\<close> is the difference \<^verbatim>\<open>a - b\<close> as the machine computes it
  on doubles, rounded, about which nothing is assumed.
\<close>

record world =
  clock :: "nat \<Rightarrow> real"
  reads :: nat
  float_sub :: "real \<Rightarrow> real \<Rightarrow> real"
  file_exists :: "nat \<Rightarrow> string \<Rightarrow> bool"
  load_t2r_assets_to_file :: "string \<Rightarrow> t2r_assets result"
  from_proto :: "tensor_spec struct \<Rightarrow> tensor_spec struct result"
  saved_model_load :: "string \<Rightarrow> model_handle result"
  trace :: "event list"

definition time_time :: "world \<Rightarrow> real \<times> world" where
  "time_time w = (clock w (reads w), w\<lparr>reads := Suc (reads w)\<rparr>)"

definition gfile_exists :: "string \<Rightarrow> world \<Rightarrow> bool \<times> world" where
  "gfile_exists f w = (file_exists w (reads w) f, w\<lparr>trace := trace w @ [ExistsCall f]\<rparr>)"

definition logging_info :: "string \<Rightarrow> string \<Rightarrow> world \<Rightarrow> world" where
  "logging_info msg arg w = w\<lparr>trace := trace w @ [LogInfo msg arg]\<rparr>"

definition logging_warning :: "string \<Rightarrow> real \<Rightarrow> world \<Rightarrow> world" where
  "logging_warning msg arg w = w\<lparr>trace := trace w @ [LogWarning msg arg]\<rparr>"

definition time_sleep :: "real \<Rightarrow> world \<Rightarrow> world" where
  "time_sleep secs w = w\<lparr>trace := trace w @ [Sleep secs]\<rparr>"

text \<open>
  The graph and session of the graph-mode predictor:
  \<^verbatim>\<open>tensorspec_utils.make_placeholders(spec, batch_size=None)\<close>,
  \<^verbatim>\<open>tensorspec_utils.map_feed_dict(placeholders, features)\<close>,
  \<^verbatim>\<open>session.run(fetches, feed_dict)\<close>, and the run of the variables initializer.
\<close>

record graph_runtime =
  make_placeholders :: "tensor_spec struct option \<Rightarrow> tensor struct result"
  map_feed_dict :: "tensor struct option \<Rightarrow> tensor struct \<Rightarrow> (tensor \<times> tensor) list result"
  session_run :: "tensor struct option \<Rightarrow> (tensor \<times> tensor) list \<Rightarrow> tensor struct result"
  initialize_variables :: "unit result"

subsection \<open>Constants\<close>

definition BUSY_WAITING_SLEEP_TIME_IN_SECS :: real where
  "BUSY_WAITING_SLEEP_TIME_IN_SECS = 10"

text \<open>
  Modelled from the spec: the two constants of \<^verbatim>\<open>tensorspec_utils\<close>, which is not part
  of the sources at hand; the marker file is \<^verbatim>\<open>assets.extra/t2r_assets.pbtxt\<close> under the
  saved-model path.
\<close>

definition EXTRA_ASSETS_DIRECTORY :: string where
  "EXTRA_ASSETS_DIRECTORY = ''assets.extra''"

definition T2R_ASSETS_FILENAME :: string where
  "T2R_ASSETS_FILENAME = ''t2r_assets.pbtxt''"

subsection \<open>SavedModelPredictorBase\<close>

text \<open>
  The attributes \<^verbatim>\<open>__init__\<close> assigns: \<^verbatim>\<open>_saved_model_path\<close>, \<^verbatim>\<open>_timeout\<close>, \<^verbatim>\<open>_model\<close>,
  \<^verbatim>\<open>_feature_spec\<close>, \<^verbatim>\<open>_label_spec\<close>. The eager-mode class adds none, so an instance of
  it is the same record.
\<close>

record predictor =
  saved_model_path :: string
  timeout :: real
  model :: "model_handle option"
  feature_spec :: "tensor_spec struct option"
  label_spec :: "tensor_spec struct option"

definition init :: "string \<Rightarrow> real \<Rightarrow> predictor" where
  "init path secs =
     \<lparr>saved_model_path = path, timeout = secs, model = None,
      feature_spec = None, label_spec = None\<rparr>"

definition default_timeout :: real where
  "default_timeout = 600"

definition not_restored :: error where
  "not_restored = ValueError ''The predictor has not yet been successfully restored.''"

definition assert_is_loaded :: "'a predictor_scheme \<Rightarrow> unit result" where
  "assert_is_loaded p =
     (case model p of None \<Rightarrow> Inl not_restored | Some m \<Rightarrow> Inr ())"

definition get_feature_specification ::
  "'a predictor_scheme \<Rightarrow> tensor_spec struct option result \<times> 'a predictor_scheme" where
  "get_feature_specification p =
     (case assert_is_loaded p of
        Inl e \<Rightarrow> (Inl e, p)
      | Inr _ \<Rightarrow> (Inr (feature_spec p), p))"

definition get_label_specification ::
  "'a predictor_scheme \<Rightarrow> tensor_spec struct option result \<times> 'a predictor_scheme" where
  "get_label_specification p =
     (case assert_is_loaded p of
        Inl e \<Rightarrow> (Inl e, p)
      | Inr _ \<Rightarrow> (Inr (label_spec p), p))"

text \<open>The local function \<^verbatim>\<open>_maybe_expand_dims\<close> of \<^verbatim>\<open>predict\<close>.\<close>

definition maybe_expand_dims :: "tensor \<Rightarrow> tensor_spec \<Rightarrow> tensor result" where
  "maybe_expand_dims f spec =
     (case as_list spec of
        Inl e \<Rightarrow> Inl e
      | Inr ds \<Rightarrow> if shape_list f = ds then expand_dims f else Inr f)"

text \<open>
  \<^verbatim>\<open>predict\<close>. A specification that is \<^verbatim>\<open>None\<close> has not the structure of a mapping of
  features, and \<^verbatim>\<open>None\<close> has no method \<^verbatim>\<open>predict\<close>.
\<close>

definition predict ::
  "'a predictor_scheme \<Rightarrow> tensor struct \<Rightarrow> tensor struct result \<times> 'a predictor_scheme" where
  "predict p fs =
     (case assert_is_loaded p of
        Inl e \<Rightarrow> (Inl e, p)
      | Inr _ \<Rightarrow>
          (case get_feature_specification p of
             (Inl e, p1) \<Rightarrow> (Inl e, p1)
           | (Inr None, p1) \<Rightarrow>
               (Inl (ValueError ''The two structures don't have the same nested structure.''), p1)
           | (Inr (Some spec), p1) \<Rightarrow>
               (case map_structure2 maybe_expand_dims fs spec of
                  Inl e \<Rightarrow> (Inl e, p1)
                | Inr expanded_features \<Rightarrow>
                    (case model p1 of
                       None \<Rightarrow> (Inl (AttributeError ''predict''), p1)
                     | Some m \<Rightarrow> (model_predict m expanded_features, p1)))))"

text \<open>
  Modelled from the spec: the class \<^verbatim>\<open>abstract_predictor.AbstractPredictor\<close>, from which
  the predictors derive, is not part of the sources at hand; the spec describes it as
  the interface of predictors, whose state is the specifications and the model handle,
  so it holds no attribute \<^verbatim>\<open>_saved_model_dir\<close>. The module assigns that attribute
  nowhere either: the constructors assign the attributes listed above (and the five of
  the graph-mode class) and no method assigns another. So reading it, as the log line of
  the waiting loop does, raises AttributeError; Python evaluates the arguments of
  \<^verbatim>\<open>logging.info\<close> before the call, so the exception leaves the loop before the log
  line and the sleep.
\<close>

definition getattr_saved_model_dir :: "'a predictor_scheme \<Rightarrow> string result" where
  "getattr_saved_model_dir p = Inl (AttributeError ''_saved_model_dir'')"

text \<open>
  The \<^verbatim>\<open>while ... else\<close> loop of \<^verbatim>\<open>restore\<close>: it is left by \<^verbatim>\<open>break\<close>, by the
  \<^verbatim>\<open>else\<close> branch once the condition is false, or by an exception.
\<close>

datatype loop_exit = Break | Else | Raised error

function wait_for_assets ::
  "'a predictor_scheme \<Rightarrow> string \<Rightarrow> real \<Rightarrow> world \<Rightarrow> loop_exit \<times> world" where
  "wait_for_assets p t2r_assets_filename start_time w =
     (case time_time w of
        (now, w1) \<Rightarrow>
          if float_sub w1 now start_time < timeout p then
            (case gfile_exists t2r_assets_filename w1 of
               (found, w2) \<Rightarrow>
                 if found then (Break, w2)
                 else
                   (case getattr_saved_model_dir p of
                      Inl e \<Rightarrow> (Raised e, w2)
                    | Inr dir \<Rightarrow>
                        wait_for_assets p t2r_assets_filename start_time
                          (time_sleep BUSY_WAITING_SLEEP_TIME_IN_SECS
                             (logging_info
                                ''Waiting for a saved model to become available at %s.'' dir w2))))
          else (Else, w1))"
  by pat_completeness auto
termination
  by (relation "{}") (simp_all add: getattr_saved_model_dir_def)

declare wait_for_assets.simps [simp del]

definition restore ::
  "world \<Rightarrow> 'a predictor_scheme \<Rightarrow> pyval result \<times> 'a predictor_scheme \<times> world" where
  "restore w p =
     (let t2r_assets_dir = path_join (saved_model_path p) EXTRA_ASSETS_DIRECTORY;
          t2r_assets_filename = path_join t2r_assets_dir T2R_ASSETS_FILENAME
      in case time_time w of
           (start_time, w0) \<Rightarrow>
             (case wait_for_assets p t2r_assets_filename start_time w0 of
                (Raised e, w1) \<Rightarrow> (Inl e, p, w1)
              | (Else, w1) \<Rightarrow>
                  (Inr (PyBool False), p,
                   logging_warning ''No saved_model found after %s seconds.'' (timeout p) w1)
              | (Break, w1) \<Rightarrow>
                  (let t2r_assets_file_path =
                         path_join (path_join (saved_model_path p) EXTRA_ASSETS_DIRECTORY)
                           T2R_ASSETS_FILENAME
                   in case load_t2r_assets_to_file w1 t2r_assets_file_path of
                        Inl e \<Rightarrow> (Inl e, p, w1)
                      | Inr t2r_assets \<Rightarrow>
                          (case from_proto w1 (assets_feature_spec t2r_assets) of
                             Inl e \<Rightarrow> (Inl e, p, w1)
                           | Inr fspec \<Rightarrow>
                               (let p1 = p\<lparr>feature_spec := Some fspec\<rparr>
                                in case from_proto w1 (assets_label_spec t2r_assets) of
                                     Inl e \<Rightarrow> (Inl e, p1, w1)
                                   | Inr lspec \<Rightarrow>
                                       (let p2 = p1\<lparr>label_spec := Some lspec\<rparr>
                                        in case saved_model_load w1 (saved_model_path p2) of
                                             Inl e \<Rightarrow> (Inl e, p2, w1)
                                           | Inr m \<Rightarrow>
                                               (Inr (PyBool True), p2\<lparr>model := Some m\<rparr>, w1)))))))"

definition init_randomly :: "'a predictor_scheme \<Rightarrow> pyval result \<times> 'a predictor_scheme" where
  "init_randomly p =
     (Inl (ValueError ''Random initialization is not supported for SavedModelPredictor.''), p)"

definition close :: "'a predictor_scheme \<Rightarrow> pyval result \<times> 'a predictor_scheme" where
  "close p =
     (case assert_is_loaded p of
        Inl e \<Rightarrow> (Inl e, p)
      | Inr _ \<Rightarrow> (Inr PyNone, p))"

definition model_version :: "'a predictor_scheme \<Rightarrow> int result \<times> 'a predictor_scheme" where
  "model_version p =
     (case assert_is_loaded p of
        Inl e \<Rightarrow> (Inl e, p)
      | Inr _ \<Rightarrow> (py_int (basename (saved_model_path p)), p))"

definition global_step :: "'a predictor_scheme \<Rightarrow> tensor result \<times> 'a predictor_scheme" where
  "global_step p =
     (case assert_is_loaded p of
        Inl e \<Rightarrow> (Inl e, p)
      | Inr _ \<Rightarrow>
          (case model p of
             None \<Rightarrow> (Inl (AttributeError ''global_step''), p)
           | Some m \<Rightarrow> (model_global_step m, p)))"

definition model_path :: "'a predictor_scheme \<Rightarrow> string result \<times> 'a predictor_scheme" where
  "model_path p =
     (case assert_is_loaded p of
        Inl e \<Rightarrow> (Inl e, p)
      | Inr _ \<Rightarrow> (Inr (saved_model_path p), p))"

subsection \<open>SavedModelTF2Predictor\<close>

definition predict_tf2 :: "predictor \<Rightarrow> tensor struct \<Rightarrow> tensor struct result \<times> predictor" where
  "predict_tf2 p fs =
     (case predict p fs of
        (Inl e, p1) \<Rightarrow> (Inl e, p1)
      | (Inr predictions, p1) \<Rightarrow> (map_structure numpy predictions, p1))"

definition global_step_tf2 :: "predictor \<Rightarrow> tensor result \<times> predictor" where
  "global_step_tf2 p =
     (case assert_is_loaded p of
        Inl e \<Rightarrow> (Inl e, p)
      | Inr _ \<Rightarrow>
          (case model p of
             None \<Rightarrow> (Inl (AttributeError ''global_step''), p)
           | Some m \<Rightarrow>
               (case model_global_step m of
                  Inl e \<Rightarrow> (Inl e, p)
                | Inr t \<Rightarrow> (numpy t, p))))"

subsection \<open>SavedModelTF1Predictor\<close>

text \<open>
  The graph-mode class adds \<^verbatim>\<open>_tf_config\<close>, \<^verbatim>\<open>_graph\<close>, \<^verbatim>\<open>_session\<close>, \<^verbatim>\<open>_predictions\<close> and
  \<^verbatim>\<open>_features\<close>. The graph and the session are objects of the runtime, known here by a
  number; the constructor is given the two it creates.
\<close>

record tf1_predictor = predictor +
  tf_config :: "string option"
  graph :: nat
  session :: nat
  predictions :: "tensor struct option"
  features :: "tensor struct option"

definition init_tf1 :: "string \<Rightarrow> real \<Rightarrow> string option \<Rightarrow> nat \<Rightarrow> nat \<Rightarrow> tf1_predictor" where
  "init_tf1 path secs config g s =
     \<lparr>saved_model_path = path, timeout = secs, model = None,
      feature_spec = None, label_spec = None,
      tf_config = config, graph = g, session = s, predictions = None, features = None\<rparr>"

definition predict_tf1 ::
  "graph_runtime \<Rightarrow> tf1_predictor \<Rightarrow> tensor struct \<Rightarrow> tensor struct result \<times> tf1_predictor" where
  "predict_tf1 rt p fs =
     (case assert_is_loaded p of
        Inl e \<Rightarrow> (Inl e, p)
      | Inr _ \<Rightarrow>
          (case map_feed_dict rt (features p) fs of
             Inl e \<Rightarrow> (Inl e, p)
           | Inr feed \<Rightarrow> (session_run rt (predictions p) feed, p)))"

text \<open>\<^verbatim>\<open>not v\<close> for the values \<^verbatim>\<open>restore\<close> returns.\<close>

fun falsy :: "pyval \<Rightarrow> bool" where
  "falsy (PyBool b) = (\<not> b)"
| "falsy PyNone = True"

text \<open>
  \<^verbatim>\<open>restore\<close> of the graph-mode class: the body ends after the variables are
  initialised, with no \<^verbatim>\<open>return\<close>, so the call returns \<^verbatim>\<open>None\<close> there.
\<close>

definition restore_tf1 ::
  "graph_runtime \<Rightarrow> world \<Rightarrow> tf1_predictor \<Rightarrow> pyval result \<times> tf1_predictor \<times> world" where
  "restore_tf1 rt w p =
     (case restore w p of
        (Inl e, p1, w1) \<Rightarrow> (Inl e, p1, w1)
      | (Inr r, p1, w1) \<Rightarrow>
          if falsy r then (Inr (PyBool False), p1, w1)
          else
            (case make_placeholders rt (feature_spec p1) of
               Inl e \<Rightarrow> (Inl e, p1, w1)
             | Inr placeholders \<Rightarrow>
                 (let p2 = p1\<lparr>features := Some placeholders\<rparr>
                  in case predict p2 placeholders of
                       (Inl e, p3) \<Rightarrow> (Inl e, p3, w1)
                     | (Inr outputs, p3) \<Rightarrow>
                         (let p4 = p3\<lparr>predictions := Some outputs\<rparr>
                          in case initialize_variables rt of
                               Inl e \<Rightarrow> (Inl e, p4, w1)
                             | Inr _ \<Rightarrow> (Inr PyNone, p4, w1)))))"

text \<open>
  \<^verbatim>\<open>global_step\<close> of the graph-mode class reads the property of the base class, which
  is already the tensor \<^verbatim>\<open>self._model.global_step()\<close> returned, and calls it: a tensor is
  not callable, so \<^verbatim>\<open>session.run\<close> is not reached.
\<close>

definition global_step_tf1 ::
  "graph_runtime \<Rightarrow> tf1_predictor \<Rightarrow> tensor result \<times> tf1_predictor" where
  "global_step_tf1 rt p =
     (case assert_is_loaded p of
        Inl e \<Rightarrow> (Inl e, p)
      | Inr _ \<Rightarrow>
          (case global_step p of
             (Inl e, p1) \<Rightarrow> (Inl e, p1)
           | (Inr t, p1) \<Rightarrow> (Inl (TypeError ''object is not callable''), p1)))"

subsection \<open>The reading of a decimal numeral\<close>

text \<open>
  The number a string of decimal digits denotes, digit by position: the comparison
  point for what \<^verbatim>\<open>int\<close> computes.
\<close>

definition decimal_value :: "string \<Rightarrow> nat" where
  "decimal_value ds = (\<Sum>i<length ds. digit_val (ds ! i) * 10 ^ (length ds - Suc i))"

text \<open>
  A valid integer literal, said without a parser: between white space, after at most one
  sign, a non-empty string of digits and underscores that begins and ends with a digit
  and has no two underscores in a row. Its value is the number its digits denote, with
  the sign.
\<close>

definition unsigned_literal :: "string \<Rightarrow> bool" where
  "unsigned_literal b =
     (b \<noteq> [] \<and> is_digit (hd b) \<and> is_digit (last b)
      \<and> (\<forall>c\<in>set b. is_digit c \<or> c = CHR ''_'')
      \<and> (CHR ''_'', CHR ''_'') \<notin> set (zip b (tl b)))"

definition int_literal :: "string \<Rightarrow> bool" where
  "int_literal s =
     (let t = strip s
      in unsigned_literal
           (if t \<noteq> [] \<and> (hd t = CHR ''-'' \<or> hd t = CHR ''+'') then tl t else t))"

definition literal_value :: "string \<Rightarrow> int" where
  "literal_value s =
     (let t = strip s
      in (if t \<noteq> [] \<and> hd t = CHR ''-'' then - 1 else 1)
         * int (decimal_value (filter is_digit t)))"

subsection \<open>Example collaborators\<close>

text \<open>
  Concrete collaborators, on which the general statements below are instantiated: an
  export under \<^verbatim>\<open>/models/1\<close> with one feature \<open>x\<close> of per-example shape \<open>[3]\<close> and one
  label \<open>y\<close>; a model that answers every input tensor with an output of the same shape
  and elements; a model that answers one scalar; a clock that advances one second per
  reading, and one that goes back one second per reading from 5 (a wall clock that is
  being set back), with differences of such small whole numbers exact on doubles; a file
  system where the marker file is there from the start, one where it never is, and one
  where it appears after the first check; a graph runtime that works, and one whose run
  of the variables initializer raises.
\<close>

definition example_feature_spec :: "tensor_spec struct" where
  "example_feature_spec = [(''x'', \<lparr>spec_shape = Some [Some 3], spec_dtype = ''float32''\<rparr>)]"

definition example_label_spec :: "tensor_spec struct" where
  "example_label_spec = [(''y'', \<lparr>spec_shape = Some [Some 1], spec_dtype = ''float32''\<rparr>)]"

fun as_output :: "tensor \<Rightarrow> tensor" where
  "as_output (NdArray s xs) = EagerTensor s xs"
| "as_output (EagerTensor s xs) = EagerTensor s xs"
| "as_output (GraphTensor s n) = GraphTensor s n"

definition echo_predict :: "tensor struct \<Rightarrow> tensor struct result" where
  "echo_predict fs = Inr (map (\<lambda>(k, t). (k, as_output t)) fs)"

definition echo_model :: model_handle where
  "echo_model = \<lparr>model_predict = echo_predict, model_global_step = Inr (EagerTensor [] [42])\<rparr>"

definition scalar_predict :: "tensor struct \<Rightarrow> tensor struct result" where
  "scalar_predict fs = Inr [(''loss'', EagerTensor [] [0])]"

definition scalar_model :: model_handle where
  "scalar_model = \<lparr>model_predict = scalar_predict, model_global_step = Inr (EagerTensor [] [42])\<rparr>"

definition example_assets :: "string \<Rightarrow> t2r_assets result" where
  "example_assets f =
     (if f = ''/models/1/assets.extra/t2r_assets.pbtxt''
      then Inr \<lparr>assets_feature_spec = example_feature_spec,
                assets_label_spec = example_label_spec\<rparr>
      else Inl (OtherError ''not found''))"

definition example_load :: "string \<Rightarrow> model_handle result" where
  "example_load d = (if d = ''/models/1'' then Inr echo_model else Inl (OtherError ''not found''))"

definition marker_from :: "nat \<Rightarrow> nat \<Rightarrow> string \<Rightarrow> bool" where
  "marker_from k0 k f = (k0 \<le> k \<and> f = ''/models/1/assets.extra/t2r_assets.pbtxt'')"

definition marker_never :: "nat \<Rightarrow> string \<Rightarrow> bool" where
  "marker_never k f = False"

definition example_world :: "(nat \<Rightarrow> string \<Rightarrow> bool) \<Rightarrow> world" where
  "example_world files =
     \<lparr>clock = real, reads = 0, float_sub = (-), file_exists = files,
      load_t2r_assets_to_file = example_assets, from_proto = Inr,
      saved_model_load = example_load, trace = []\<rparr>"

definition ready_world :: world where
  "ready_world = example_world (marker_from 0)"

definition late_world :: world where
  "late_world = example_world (marker_from 3)"

definition empty_world :: world where
  "empty_world = example_world marker_never"

definition backward_clock :: "nat \<Rightarrow> real" where
  "backward_clock k = 5 - real k"

definition backward_world :: world where
  "backward_world = ready_world\<lparr>clock := backward_clock\<rparr>"

definition example_placeholders :: "tensor_spec struct option \<Rightarrow> tensor struct result" where
  "example_placeholders spec =
     (case spec of
        None \<Rightarrow> Inl (TypeError ''no specification'')
      | Some sp \<Rightarrow>
          Inr (map (\<lambda>(k, s). (k, GraphTensor (None # (case spec_shape s of None \<Rightarrow> [] | Some ds \<Rightarrow> ds)) k)) sp))"

definition example_feed ::
  "tensor struct option \<Rightarrow> tensor struct \<Rightarrow> (tensor \<times> tensor) list result" where
  "example_feed placeholders fs =
     (case placeholders of
        None \<Rightarrow> Inl (TypeError ''no placeholders'')
      | Some phs \<Rightarrow>
          (case map_pairs (\<lambda>h f. Inr (h, f)) phs fs of
             Inl e \<Rightarrow> Inl e
           | Inr z \<Rightarrow> Inr (map snd z)))"

text \<open>A session that returns what it is fed, under the names of the placeholders.\<close>

definition example_run ::
  "tensor struct option \<Rightarrow> (tensor \<times> tensor) list \<Rightarrow> tensor struct result" where
  "example_run fetches feed = Inr (map (\<lambda>(h, v). (tensor_name h, v)) feed)"

definition example_graph_runtime :: graph_runtime where
  "example_graph_runtime =
     \<lparr>make_placeholders = example_placeholders, map_feed_dict = example_feed,
      session_run = example_run, initialize_variables = Inr ()\<rparr>"


definition loaded_predictor :: "model_handle \<Rightarrow> predictor" where
  "loaded_predictor m =
     \<lparr>saved_model_path = ''/models/1'', timeout = 600, model = Some m,
      feature_spec = Some example_feature_spec, label_spec = Some example_label_spec\<rparr>"

definition loaded_tf1_predictor :: tf1_predictor where
  "loaded_tf1_predictor =
     \<lparr>saved_model_path = ''/models/1'', timeout = 600, model = Some echo_model,
      feature_spec = Some example_feature_spec, label_spec = Some example_label_spec,
      tf_config = None, graph = 0, session = 0,
      predictions = Some [(''x'', GraphTensor [None, Some 3] ''x'')],
      features = Some [(''x'', GraphTensor [None, Some 3] ''x'')]\<rparr>"

definition unbatched_features :: "tensor struct" where
  "unbatched_features = [(''x'', NdArray [3] [1, 2, 3])]"

definition batched_features :: "tensor struct" where
  "batched_features = [(''x'', NdArray [2, 3] [1, 2, 3, 4, 5, 6])]"

definition versioned_predictor :: "string \<Rightarrow> predictor" where
  "versioned_predictor path = (loaded_predictor echo_model)\<lparr>saved_model_path := path\<rparr>"

section \<open>Properties\<close>

subsection \<open>Auxiliary facts\<close>



text \<open>
  The waiting loop never runs its body twice: the first pass leaves by \<^verbatim>\<open>break\<close> when
  the marker file is there and by the AttributeError of the log line when it is not.
\<close>

lemma wait_for_assets_once:
  "wait_for_assets p f start w =
     (if float_sub w (clock w (reads w)) start < timeout p then
        (if file_exists w (Suc (reads w)) f
         then (Break, w\<lparr>reads := Suc (reads w), trace := trace w @ [ExistsCall f]\<rparr>)
         else (Raised (AttributeError ''_saved_model_dir''),
               w\<lparr>reads := Suc (reads w), trace := trace w @ [ExistsCall f]\<rparr>))
      else (Else, w\<lparr>reads := Suc (reads w)\<rparr>))"
  by (subst wait_for_assets.simps)
     (simp add: time_time_def gfile_exists_def getattr_saved_model_dir_def)

lemma marker_path:
  "path_join (path_join ''/models/1'' EXTRA_ASSETS_DIRECTORY) T2R_ASSETS_FILENAME =
     ''/models/1/assets.extra/t2r_assets.pbtxt''"
  by (simp add: path_join_def EXTRA_ASSETS_DIRECTORY_def T2R_ASSETS_FILENAME_def)

lemmas example_defs =
  example_world_def ready_world_def late_world_def empty_world_def marker_from_def
  marker_never_def example_assets_def example_load_def init_def init_tf1_def
  loaded_predictor_def loaded_tf1_predictor_def default_timeout_def backward_world_def
  backward_clock_def

lemmas restore_defs =
  restore_def Let_def marker_path wait_for_assets_once time_time_def logging_warning_def

lemmas predict_defs =
  predict_def assert_is_loaded_def get_feature_specification_def map_structure2_def
  maybe_expand_dims_def as_list_def example_feature_spec_def




subsection \<open>Use before load\<close>

text \<open>
  Claim C1. On a predictor of either variant whose model handle is still \<^verbatim>\<open>None\<close>,
  every call of \<^verbatim>\<open>predict\<close>, \<^verbatim>\<open>get_feature_specification\<close>,
  \<^verbatim>\<open>get_label_specification\<close>, \<^verbatim>\<open>model_version\<close>, \<^verbatim>\<open>global_step\<close> and \<^verbatim>\<open>model_path\<close>
  raises the ValueError that says the predictor has not been restored, and the instance
  after the call is the instance before it. The methods of the base class are stated
  for every class that extends it; the overriding methods of the eager-mode class and of
  the graph-mode class are stated on their own instances.
\<close>

theorem unrestored_calls_fail:
  fixes p :: "'a predictor_scheme" and e :: predictor and g :: tf1_predictor
  assumes "model p = None" and "model e = None" and "model g = None"
  shows "not_restored = ValueError ''The predictor has not yet been successfully restored.''
       \<and> predict p fs = (Inl not_restored, p)
       \<and> get_feature_specification p = (Inl not_restored, p)
       \<and> get_label_specification p = (Inl not_restored, p)
       \<and> model_version p = (Inl not_restored, p)
       \<and> global_step p = (Inl not_restored, p)
       \<and> model_path p = (Inl not_restored, p)
       \<and> predict_tf2 e fs = (Inl not_restored, e)
       \<and> global_step_tf2 e = (Inl not_restored, e)
       \<and> predict_tf1 rt g fs = (Inl not_restored, g)
       \<and> global_step_tf1 rt g = (Inl not_restored, g)"
  using assms
  by (simp add: not_restored_def assert_is_loaded_def predict_def
      get_feature_specification_def get_label_specification_def model_version_def
      global_step_def model_path_def predict_tf2_def global_step_tf2_def predict_tf1_def
      global_step_tf1_def)

theorem unrestored_calls_fail_witness:
  "model (init ''/models/1'' 600) = None
   \<and> model (init_tf1 ''/models/1'' 600 None 0 0) = None
   \<and> predict (init ''/models/1'' 600) unbatched_features =
       (Inl (ValueError ''The predictor has not yet been successfully restored.''),
        init ''/models/1'' 600)
   \<and> model_version (init ''/models/1'' 600) = (Inl not_restored, init ''/models/1'' 600)
   \<and> predict_tf2 (init ''/models/1'' 600) unbatched_features =
       (Inl not_restored, init ''/models/1'' 600)
   \<and> predict_tf1 example_graph_runtime (init_tf1 ''/models/1'' 600 None 0 0) unbatched_features =
       (Inl not_restored, init_tf1 ''/models/1'' 600 None 0 0)"
proof -
  have 1: "model (init ''/models/1'' 600) = None"
    by (simp add: init_def)
  have 2: "model (init_tf1 ''/models/1'' 600 None 0 0) = None"
    by (simp add: init_tf1_def)
  show ?thesis
    using 1 2 unrestored_calls_fail [OF 1 1 2, of unbatched_features example_graph_runtime]
    by simp
qed

subsection \<open>close\<close>

text \<open>
  Claim C5. On a loaded predictor (the model handle is not \<^verbatim>\<open>None\<close>) \<^verbatim>\<open>close\<close> returns
  \<^verbatim>\<open>None\<close> and the instance after the call equals the instance before it, field by
  field; the model handle in particular stays. Hence the predictor is still loaded after
  \<^verbatim>\<open>close\<close>, and \<^verbatim>\<open>predict\<close>, the accessors and \<^verbatim>\<open>close\<close> itself do after it what they
  did before it. The statement is about the base class method, which neither variant
  overrides, on an instance of any class that extends the base class.
\<close>

theorem close_keeps_state:
  fixes p :: "'a predictor_scheme"
  assumes "model p \<noteq> None"
  shows "close p = (Inr PyNone, p)
       \<and> model (snd (close p)) = model p
       \<and> assert_is_loaded (snd (close p)) = Inr ()
       \<and> close (snd (close p)) = (Inr PyNone, p)
       \<and> predict (snd (close p)) fs = predict p fs
       \<and> get_feature_specification (snd (close p)) = get_feature_specification p
       \<and> get_label_specification (snd (close p)) = get_label_specification p
       \<and> model_version (snd (close p)) = model_version p
       \<and> global_step (snd (close p)) = global_step p
       \<and> model_path (snd (close p)) = model_path p"
proof -
  from assms have loaded: "assert_is_loaded p = Inr ()"
    by (auto simp: assert_is_loaded_def split: option.splits)
  then have "close p = (Inr PyNone, p)"
    by (simp add: close_def)
  with loaded show ?thesis by simp
qed

theorem close_keeps_state_witness:
  "model loaded_tf1_predictor \<noteq> None
   \<and> close loaded_tf1_predictor = (Inr PyNone, loaded_tf1_predictor)
   \<and> predict (snd (close loaded_tf1_predictor)) batched_features =
       predict loaded_tf1_predictor batched_features"
proof -
  have 1: "model loaded_tf1_predictor \<noteq> None"
    by (simp add: loaded_tf1_predictor_def)
  show ?thesis
    using 1 close_keeps_state [OF 1, of batched_features] by simp
qed










subsection \<open>init\_randomly\<close>

text \<open>
  Claim C7. \<^verbatim>\<open>init_randomly\<close> raises, in every state of every predictor, loaded or
  not, the ValueError that says random initialization is not supported for this
  predictor; the instance is left as it was.
\<close>

theorem init_randomly_fails:
  "init_randomly p =
     (Inl (ValueError ''Random initialization is not supported for SavedModelPredictor.''), p)"
  by (simp add: init_randomly_def)

subsection \<open>restore\<close>

text \<open>
  Claim C2, at an input where the code departs from it. A predictor constructed with
  the default timeout of 600 seconds on \<^verbatim>\<open>/models/1\<close>, in a world where the marker file
  never exists: \<^verbatim>\<open>restore\<close> does not return \<^verbatim>\<open>False\<close>. The first pass of the loop
  finds no marker file and evaluates \<^verbatim>\<open>self._saved_model_dir\<close> for the log line, which
  raises AttributeError; no warning is logged (the trace holds the one file check). The
  instance is unchanged, as the claim says.
\<close>

theorem restore_missing_marker_raises:
  "restore empty_world (init ''/models/1'' default_timeout) =
     (Inl (AttributeError ''_saved_model_dir''), init ''/models/1'' default_timeout,
      empty_world\<lparr>reads := 2, trace := [ExistsCall ''/models/1/assets.extra/t2r_assets.pbtxt'']\<rparr>)"
  by (simp add: restore_defs example_defs)

text \<open>
  Claim C3, at inputs where the code departs from it. With the marker file and a
  complete export present from the start, \<^verbatim>\<open>restore\<close> of the graph-mode class populates
  the specifications and the model handle but returns \<^verbatim>\<open>None\<close>, which is not \<^verbatim>\<open>True\<close>
  (and is false as a condition): its body has no \<^verbatim>\<open>return\<close> after the variables are
  initialised. And with a marker file that appears after the first check, still within
  the timeout, \<^verbatim>\<open>restore\<close> of the base class raises the AttributeError of the log line
  and populates nothing.
\<close>

theorem restore_tf1_returns_none:
  "restore_tf1 example_graph_runtime ready_world (init_tf1 ''/models/1'' 600 None 0 0) =
     (Inr PyNone, loaded_tf1_predictor,
      ready_world\<lparr>reads := 2, trace := [ExistsCall ''/models/1/assets.extra/t2r_assets.pbtxt'']\<rparr>)
   \<and> falsy PyNone
   \<and> file_exists late_world 3 ''/models/1/assets.extra/t2r_assets.pbtxt''
   \<and> restore late_world (init ''/models/1'' 600) =
       (Inl (AttributeError ''_saved_model_dir''), init ''/models/1'' 600,
        late_world\<lparr>reads := 2, trace := [ExistsCall ''/models/1/assets.extra/t2r_assets.pbtxt'']\<rparr>)"
  by (simp add: restore_tf1_def restore_defs example_defs predict_defs example_graph_runtime_def
      example_placeholders_def echo_model_def echo_predict_def)

text \<open>
  What does hold of claim C3: when the marker file is there at the first check and the
  three loaders succeed, \<^verbatim>\<open>restore\<close> of the base class (which the eager-mode class
  inherits) returns \<^verbatim>\<open>True\<close> with the specifications and the model handle set from what
  the loaders returned.
\<close>

lemma restore_present_at_first_check:
  assumes "float_sub w (clock w (Suc (reads w))) (clock w (reads w)) < timeout p"
    and "marker = path_join (path_join (saved_model_path p) EXTRA_ASSETS_DIRECTORY)
                    T2R_ASSETS_FILENAME"
    and "file_exists w (Suc (Suc (reads w))) marker"
    and "load_t2r_assets_to_file w marker = Inr a"
    and "from_proto w (assets_feature_spec a) = Inr fspec"
    and "from_proto w (assets_label_spec a) = Inr lspec"
    and "saved_model_load w (saved_model_path p) = Inr m"
  shows "restore w p =
     (Inr (PyBool True),
      p\<lparr>feature_spec := Some fspec, label_spec := Some lspec, model := Some m\<rparr>,
      w\<lparr>reads := Suc (Suc (reads w)), trace := trace w @ [ExistsCall marker]\<rparr>)"
  using assms
  by (simp add: restore_def Let_def wait_for_assets_once time_time_def)

text \<open>
  The defect behind the two inputs above, in general: whenever the loop is entered and
  the marker file is not there at the first check, \<^verbatim>\<open>restore\<close> raises.
\<close>

lemma restore_absent_at_first_check:
  assumes "float_sub w (clock w (Suc (reads w))) (clock w (reads w)) < timeout p"
    and "marker = path_join (path_join (saved_model_path p) EXTRA_ASSETS_DIRECTORY)
                    T2R_ASSETS_FILENAME"
    and "\<not> file_exists w (Suc (Suc (reads w))) marker"
  shows "restore w p =
     (Inl (AttributeError ''_saved_model_dir''), p,
      w\<lparr>reads := Suc (Suc (reads w)), trace := trace w @ [ExistsCall marker]\<rparr>)"
  using assms
  by (simp add: restore_def Let_def wait_for_assets_once time_time_def)

text \<open>
  Claim C9 as stated fails when the wall clock is set back between the two readings
  \<^verbatim>\<open>restore\<close> takes of it. A predictor constructed with timeout 0 on \<^verbatim>\<open>/models/1\<close>,
  where the export is complete, and a clock that reads 5 and then 4: the elapsed time
  is \<open>- 1\<close>, which is less than 0, so the loop is entered, the marker file is checked and
  found, and \<^verbatim>\<open>restore\<close> loads the model and returns \<^verbatim>\<open>True\<close>.
\<close>

theorem restore_backward_clock_counterexample:
  "timeout (init ''/models/1'' 0) = 0
   \<and> clock backward_world 0 = 5 \<and> clock backward_world 1 = 4
   \<and> restore backward_world (init ''/models/1'' 0) =
       (Inr (PyBool True), (loaded_predictor echo_model)\<lparr>timeout := 0\<rparr>,
        backward_world\<lparr>reads := 2,
          trace := [ExistsCall ''/models/1/assets.extra/t2r_assets.pbtxt'']\<rparr>)"
  by (simp add: restore_defs example_defs)

text \<open>
  Claim C9, amended. When the timeout is zero or negative and the elapsed time
  \<^verbatim>\<open>restore\<close> computes at the first test of its loop, \<^verbatim>\<open>time.time() - start_time\<close>, is
  not negative (the wall clock has not been set back between the two readings), the loop
  condition is false at once: \<^verbatim>\<open>restore\<close> returns \<^verbatim>\<open>False\<close>, the instance is unchanged,
  and the only thing that happened in the world is the warning (the trace is extended by
  the warning alone, so \<^verbatim>\<open>tf.io.gfile.exists\<close> was never called), whatever the file
  system holds, a complete export included. The same for \<^verbatim>\<open>restore\<close> of the graph-mode
  class.
\<close>

theorem restore_nonpositive_timeout:
  fixes p :: "'a predictor_scheme" and q :: tf1_predictor
  assumes "0 \<le> float_sub w (clock w (Suc (reads w))) (clock w (reads w))"
  shows "(timeout p \<le> 0 \<longrightarrow>
            restore w p =
              (Inr (PyBool False), p,
               w\<lparr>reads := Suc (Suc (reads w)),
                 trace := trace w @
                   [LogWarning ''No saved_model found after %s seconds.'' (timeout p)]\<rparr>))
       \<and> (timeout q \<le> 0 \<longrightarrow>
            restore_tf1 rt w q =
              (Inr (PyBool False), q,
               w\<lparr>reads := Suc (Suc (reads w)),
                 trace := trace w @
                   [LogWarning ''No saved_model found after %s seconds.'' (timeout q)]\<rparr>))"
proof -
  have stop: "\<not> float_sub w (clock w (Suc (reads w))) (clock w (reads w)) < secs"
    if "secs \<le> 0" for secs
    using that assms by simp
  show ?thesis
    by (simp add: restore_tf1_def restore_def Let_def wait_for_assets_once time_time_def
        logging_warning_def stop)
qed

theorem restore_nonpositive_timeout_witness:
  "0 \<le> float_sub ready_world (clock ready_world (Suc (reads ready_world)))
         (clock ready_world (reads ready_world))
   \<and> timeout (init ''/models/1'' 0) \<le> 0
   \<and> timeout (init_tf1 ''/models/1'' (- 1) None 0 0) \<le> 0
   \<and> file_exists ready_world 2 ''/models/1/assets.extra/t2r_assets.pbtxt''
   \<and> restore ready_world (init ''/models/1'' 0) =
       (Inr (PyBool False), init ''/models/1'' 0,
        ready_world\<lparr>reads := 2,
          trace := [LogWarning ''No saved_model found after %s seconds.'' 0]\<rparr>)
   \<and> restore_tf1 example_graph_runtime ready_world (init_tf1 ''/models/1'' (- 1) None 0 0) =
       (Inr (PyBool False), init_tf1 ''/models/1'' (- 1) None 0 0,
        ready_world\<lparr>reads := 2,
          trace := [LogWarning ''No saved_model found after %s seconds.'' (- 1)]\<rparr>)"
proof -
  have 1: "0 \<le> float_sub ready_world (clock ready_world (Suc (reads ready_world)))
                (clock ready_world (reads ready_world))"
    by (simp add: example_defs)
  show ?thesis
    using 1
      restore_nonpositive_timeout [OF 1, of "init ''/models/1'' 0"
        "init_tf1 ''/models/1'' (- 1) None 0 0" example_graph_runtime]
    by (simp add: example_defs)
qed

subsection \<open>predict\<close>

lemma map_leaves_keys:
  "map_leaves fn s = Inr out \<Longrightarrow> map fst out = map fst s"
  by (induction s arbitrary: out) (auto split: sum.splits)

lemma map_leaves_leaves:
  "map_leaves fn s = Inr out \<Longrightarrow> i < length s \<Longrightarrow> fn (snd (s ! i)) = Inr (snd (out ! i))"
proof (induction s arbitrary: out i)
  case Nil
  then show ?case by simp
next
  case (Cons a s)
  obtain k x where a: "a = (k, x)" by (cases a)
  from Cons.prems(1) obtain y ys where
    y: "fn x = Inr y" and ys: "map_leaves fn s = Inr ys" and out: "out = (k, y) # ys"
    by (auto simp: a split: sum.splits)
  show ?case
  proof (cases i)
    case 0
    then show ?thesis by (simp add: a y out)
  next
    case (Suc j)
    then show ?thesis using Cons.IH[OF ys, of j] Cons.prems(2) by (simp add: out)
  qed
qed

text \<open>
  The traversal succeeds exactly when the function succeeds on every leaf, whatever
  the order; so the order of the traversal decides which exception is raised, not
  whether one is, nor the result.
\<close>

lemma map_leaves_succeeds:
  "\<forall>x\<in>snd ` set s. \<exists>y. fn x = Inr y \<Longrightarrow> \<exists>out. map_leaves fn s = Inr out"
  by (induction s) auto

lemma map_leaves_all_succeed:
  "map_leaves fn s = Inr out \<Longrightarrow> \<forall>x\<in>snd ` set s. \<exists>y. fn x = Inr y"
  by (induction s arbitrary: out) (fastforce split: sum.splits)+

lemma map_structure_Inr_iff:
  "map_structure fn s = Inr out \<longleftrightarrow> map_leaves fn s = Inr out"
proof
  assume "map_structure fn s = Inr out"
  then show "map_leaves fn s = Inr out"
    by (auto simp: map_structure_def split: sum.splits)
next
  assume r: "map_leaves fn s = Inr out"
  then have "\<forall>x\<in>snd ` set (sort_key fst s). \<exists>y. fn x = Inr y"
    using map_leaves_all_succeed [of fn s out] by simp
  then obtain out' where "map_leaves fn (sort_key fst s) = Inr out'"
    using map_leaves_succeeds [of "sort_key fst s" fn] by blast
  with r show "map_structure fn s = Inr out"
    by (simp add: map_structure_def)
qed

lemma map_structure_keys:
  "map_structure fn s = Inr out \<Longrightarrow> map fst out = map fst s"
  by (simp add: map_structure_Inr_iff map_leaves_keys)

lemma map_structure_leaves:
  "map_structure fn s = Inr out \<Longrightarrow> i < length s \<Longrightarrow> fn (snd (s ! i)) = Inr (snd (out ! i))"
  by (simp add: map_structure_Inr_iff map_leaves_leaves)

lemma map_leaves_numpy_eager:
  "\<forall>t\<in>snd ` set out. is_EagerTensor t \<Longrightarrow>
     map_leaves numpy out = Inr (map (\<lambda>(k, t). (k, NdArray (dims t) (elems t))) out)"
proof (induction out)
  case Nil
  then show ?case by simp
next
  case (Cons a out)
  obtain k t where a: "a = (k, t)" by (cases a)
  from Cons.prems have "is_EagerTensor t" by (simp add: a)
  then obtain s xs where t: "t = EagerTensor s xs" by (cases t) auto
  from Cons show ?case by (simp add: a t)
qed

lemma map_structure_numpy_eager:
  "\<forall>t\<in>snd ` set out. is_EagerTensor t \<Longrightarrow>
     map_structure numpy out = Inr (map (\<lambda>(k, t). (k, NdArray (dims t) (elems t))) out)"
  by (simp add: map_structure_Inr_iff map_leaves_numpy_eager)

lemma map_pairs_expand:
  assumes "fst ` set fs \<subseteq> fst ` set spec"
    and "\<forall>s\<in>snd ` set spec. spec_shape s \<noteq> None"
    and "\<forall>f\<in>snd ` set fs. \<not> is_GraphTensor f"
  shows "map_pairs maybe_expand_dims fs spec =
     Inr (map (\<lambda>(k, f). (k, if Some (shape_list f) = Option.bind (map_of spec k) spec_shape
                           then NdArray (1 # dims f) (elems f) else f)) fs)"
  using assms(1,3)
proof (induction fs)
  case Nil
  then show ?case by simp
next
  case (Cons a fs)
  obtain k f where a: "a = (k, f)" by (cases a)
  from Cons.prems(1) have "k \<in> fst ` set spec" by (simp add: a)
  then obtain s where s: "map_of spec k = Some s"
    by (metis domD dom_map_of_conv_image_fst)
  then have "s \<in> snd ` set spec"
    by (metis map_of_SomeD image_eqI snd_conv)
  with assms(2) obtain ds where ds: "spec_shape s = Some ds" by auto
  from Cons.prems(2) have "\<not> is_GraphTensor f" by (simp add: a)
  then have ex: "expand_dims f = Inr (NdArray (1 # dims f) (elems f))"
    by (cases f) auto
  have step: "maybe_expand_dims f s =
      Inr (if shape_list f = ds then NdArray (1 # dims f) (elems f) else f)"
    by (simp add: maybe_expand_dims_def as_list_def ds ex)
  from Cons.prems have
    "map_pairs maybe_expand_dims fs spec =
       Inr (map (\<lambda>(k, f). (k, if Some (shape_list f) = Option.bind (map_of spec k) spec_shape
                             then NdArray (1 # dims f) (elems f) else f)) fs)"
    by (intro Cons.IH) auto
  then show ?case
    by (auto simp: a s ds step)
qed

text \<open>
  Claim C4 as stated fails at two inputs. The graph-mode predictor, loaded, with the
  feature \<open>x\<close> of shape \<open>[3]\<close>, which is the per-example shape of its specification: its
  \<^verbatim>\<open>predict\<close> feeds the session the tensor as given, of shape \<open>[3]\<close>, not \<open>[1, 3]\<close> (the
  example session returns what it is fed). And the base predictor over a model that
  answers a scalar: the feature is expanded, and the output has no leading dimension of
  size 1, since the shape of the output is the runtime's.
\<close>

theorem predict_expansion_counterexample:
  "feature_spec loaded_tf1_predictor =
       Some [(''x'', \<lparr>spec_shape = Some [Some 3], spec_dtype = ''float32''\<rparr>)]
   \<and> unbatched_features = [(''x'', NdArray [3] [1, 2, 3])]
   \<and> shape_list (NdArray [3] [1, 2, 3]) = [Some 3]
   \<and> predict_tf1 example_graph_runtime loaded_tf1_predictor unbatched_features =
       (Inr [(''x'', NdArray [3] [1, 2, 3])], loaded_tf1_predictor)
   \<and> predict (loaded_predictor scalar_model) unbatched_features =
       (Inr [(''loss'', EagerTensor [] [0])], loaded_predictor scalar_model)"
  by (simp add: predict_tf1_def predict_defs example_graph_runtime_def example_feed_def
      example_run_def unbatched_features_def loaded_tf1_predictor_def loaded_predictor_def
      scalar_model_def scalar_predict_def)

text \<open>
  Claim C4, amended. For a loaded predictor of the base class or of the eager-mode
  class, a specification whose shapes have a known rank, and a mapping of arrays or
  eager tensors with the keys of the specification: \<^verbatim>\<open>predict\<close> hands the runtime the
  mapping \<open>ex\<close>, with the same keys, in which every tensor whose shape equals the
  per-example shape of its specification has got a leading dimension of size 1 and every
  other tensor is as it was given; the result is what the runtime answers on \<open>ex\<close>
  (converted leaf by leaf in the eager-mode class). \<^verbatim>\<open>predict\<close> of the graph-mode class
  expands nothing: it hands \<^verbatim>\<open>map_feed_dict\<close> the features as given.
\<close>

theorem predict_expands:
  fixes p :: predictor and q :: tf1_predictor
  assumes "model p = Some m" and "feature_spec p = Some spec"
    and "fst ` set fs = fst ` set spec"
    and "\<forall>s\<in>snd ` set spec. spec_shape s \<noteq> None"
    and "\<forall>f\<in>snd ` set fs. \<not> is_GraphTensor f"
    and "ex = map (\<lambda>(k, f). (k, if Some (shape_list f) = Option.bind (map_of spec k) spec_shape
                               then NdArray (1 # dims f) (elems f) else f)) fs"
    and "model q \<noteq> None"
  shows "predict p fs = (model_predict m ex, p)
       \<and> predict_tf2 p fs =
           (case model_predict m ex of Inl e \<Rightarrow> Inl e | Inr out \<Rightarrow> map_structure numpy out, p)
       \<and> map fst ex = map fst fs
       \<and> predict_tf1 rt q fs =
           (case map_feed_dict rt (features q) fs of
              Inl e \<Rightarrow> Inl e
            | Inr feed \<Rightarrow> session_run rt (predictions q) feed, q)"
proof -
  have "map_pairs maybe_expand_dims fs spec = Inr ex"
    using assms(3-6) by (simp add: map_pairs_expand)
  moreover have "\<exists>sorted. map_pairs maybe_expand_dims (sort_key fst fs) spec = Inr sorted"
    using assms(3-5) by (simp add: map_pairs_expand)
  ultimately have "map_structure2 maybe_expand_dims fs spec = Inr ex"
    using assms(3) by (auto simp: map_structure2_def)
  then have 1: "predict p fs = (model_predict m ex, p)"
    using assms(1,2)
    by (simp add: predict_def assert_is_loaded_def get_feature_specification_def)
  then have 2: "predict_tf2 p fs =
      (case model_predict m ex of Inl e \<Rightarrow> Inl e | Inr out \<Rightarrow> map_structure numpy out, p)"
    by (simp add: predict_tf2_def split: sum.splits)
  have 3: "map fst ex = map fst fs"
    by (simp add: assms(6) case_prod_unfold comp_def)
  have 4: "predict_tf1 rt q fs =
      (case map_feed_dict rt (features q) fs of
         Inl e \<Rightarrow> Inl e
       | Inr feed \<Rightarrow> session_run rt (predictions q) feed, q)"
    using assms(7)
    by (auto simp: predict_tf1_def assert_is_loaded_def split: option.splits sum.splits)
  from 1 2 3 4 show ?thesis by simp
qed

lemma predict_echo_unbatched:
  "predict (loaded_predictor echo_model) unbatched_features =
     (Inr [(''x'', EagerTensor [1, 3] [1, 2, 3])], loaded_predictor echo_model)"
  by (simp add: predict_defs echo_model_def echo_predict_def unbatched_features_def
      loaded_predictor_def)

lemma predict_echo_batched:
  "predict (loaded_predictor echo_model) batched_features =
     (Inr [(''x'', EagerTensor [2, 3] [1, 2, 3, 4, 5, 6])], loaded_predictor echo_model)"
  by (simp add: predict_defs echo_model_def echo_predict_def batched_features_def
      loaded_predictor_def)

lemma predict_echo_no_features:
  "predict (loaded_predictor echo_model) [] =
     (Inl (ValueError ''The two structures don't have the same nested structure.''),
      loaded_predictor echo_model)"
  by (simp add: predict_defs loaded_predictor_def)

lemma global_step_echo:
  "global_step (loaded_predictor echo_model) =
     (Inr (EagerTensor [] [42]), loaded_predictor echo_model)"
  by (simp add: global_step_def assert_is_loaded_def loaded_predictor_def echo_model_def)

theorem predict_expands_witness:
  "model (loaded_predictor echo_model) = Some echo_model
   \<and> feature_spec (loaded_predictor echo_model) = Some example_feature_spec
   \<and> fst ` set unbatched_features = fst ` set example_feature_spec
   \<and> fst ` set batched_features = fst ` set example_feature_spec
   \<and> model loaded_tf1_predictor \<noteq> None
   \<and> predict (loaded_predictor echo_model) unbatched_features =
       (Inr [(''x'', EagerTensor [1, 3] [1, 2, 3])], loaded_predictor echo_model)
   \<and> predict_tf2 (loaded_predictor echo_model) unbatched_features =
       (Inr [(''x'', NdArray [1, 3] [1, 2, 3])], loaded_predictor echo_model)
   \<and> predict (loaded_predictor echo_model) batched_features =
       (Inr [(''x'', EagerTensor [2, 3] [1, 2, 3, 4, 5, 6])], loaded_predictor echo_model)
   \<and> predict_tf2 (loaded_predictor echo_model) batched_features =
       (Inr [(''x'', NdArray [2, 3] [1, 2, 3, 4, 5, 6])], loaded_predictor echo_model)"
proof -
  have 1: "model (loaded_predictor echo_model) = Some echo_model"
    and 2: "feature_spec (loaded_predictor echo_model) = Some example_feature_spec"
    by (simp_all add: loaded_predictor_def)
  have 3: "fst ` set unbatched_features = fst ` set example_feature_spec"
    and b3: "fst ` set batched_features = fst ` set example_feature_spec"
    by (simp_all add: unbatched_features_def batched_features_def example_feature_spec_def)
  have 4: "\<forall>s\<in>snd ` set example_feature_spec. spec_shape s \<noteq> None"
    by (simp add: example_feature_spec_def)
  have 5: "\<forall>f\<in>snd ` set unbatched_features. \<not> is_GraphTensor f"
    and b5: "\<forall>f\<in>snd ` set batched_features. \<not> is_GraphTensor f"
    by (simp_all add: unbatched_features_def batched_features_def)
  have 7: "model loaded_tf1_predictor \<noteq> None"
    by (simp add: loaded_tf1_predictor_def)
  show ?thesis
    using 1 2 3 b3 7
      predict_expands [OF 1 2 3 4 5 refl 7, of example_graph_runtime]
      predict_expands [OF 1 2 b3 4 b5 refl 7, of example_graph_runtime]
    by (simp add: unbatched_features_def batched_features_def example_feature_spec_def
        echo_model_def echo_predict_def map_structure_def)
qed

subsection \<open>The eager-mode class\<close>

text \<open>
  Claim C8. \<^verbatim>\<open>predict\<close> of the eager-mode class returns the result of the base
  \<^verbatim>\<open>predict\<close> with \<^verbatim>\<open>numpy()\<close> applied to every leaf: an exception of the base method is
  passed on; a result \<open>out\<close> of the base method becomes \<^verbatim>\<open>map_structure\<close> of \<^verbatim>\<open>numpy\<close> over
  \<open>out\<close>, which, when it returns, has the keys of \<open>out\<close> in the same order and under each
  key the conversion of the leaf of \<open>out\<close>; when every leaf of \<open>out\<close> is a tensor of the
  runtime, the result is \<open>out\<close> with each tensor replaced by the array of the same shape
  and elements. Its \<^verbatim>\<open>global_step\<close> is the conversion of what the base property returns,
  the step counter of the runtime.
\<close>

theorem predict_tf2_converts:
  fixes p a b :: predictor
  shows "(predict a gs = (Inl e, a') \<longrightarrow> predict_tf2 a gs = (Inl e, a'))
       \<and> (predict p fs = (Inr out, p') \<longrightarrow>
            predict_tf2 p fs = (map_structure numpy out, p'))
       \<and> (predict p fs = (Inr out, p') \<and> map_structure numpy out = Inr res \<longrightarrow>
            predict_tf2 p fs = (Inr res, p')
          \<and> map fst res = map fst out
          \<and> (\<forall>i<length out. numpy (snd (out ! i)) = Inr (snd (res ! i))))
       \<and> (predict p fs = (Inr out, p') \<and> (\<forall>t\<in>snd ` set out. is_EagerTensor t) \<longrightarrow>
            predict_tf2 p fs =
              (Inr (map (\<lambda>(k, t). (k, NdArray (dims t) (elems t))) out), p'))
       \<and> (global_step p = (Inr t, p'') \<longrightarrow> global_step_tf2 p = (numpy t, p''))
       \<and> (global_step p = (Inr (EagerTensor s xs), p'') \<longrightarrow>
            global_step_tf2 p = (Inr (NdArray s xs), p''))
       \<and> (global_step b = (Inl e', b') \<longrightarrow> global_step_tf2 b = (Inl e', b'))"
proof -
  have 1: "predict a gs = (Inl e, a') \<longrightarrow> predict_tf2 a gs = (Inl e, a')"
    by (simp add: predict_tf2_def)
  have 2: "predict p fs = (Inr out, p') \<longrightarrow> predict_tf2 p fs = (map_structure numpy out, p')"
    by (simp add: predict_tf2_def)
  have 3: "predict p fs = (Inr out, p') \<and> map_structure numpy out = Inr res \<longrightarrow>
            predict_tf2 p fs = (Inr res, p')
          \<and> map fst res = map fst out
          \<and> (\<forall>i<length out. numpy (snd (out ! i)) = Inr (snd (res ! i)))"
    using map_structure_keys [of numpy out res] map_structure_leaves [of numpy out res]
    by (simp add: predict_tf2_def)
  have 4: "predict p fs = (Inr out, p') \<and> (\<forall>t\<in>snd ` set out. is_EagerTensor t) \<longrightarrow>
            predict_tf2 p fs =
              (Inr (map (\<lambda>(k, t). (k, NdArray (dims t) (elems t))) out), p')"
    using map_structure_numpy_eager [of out] by (simp add: predict_tf2_def)
  have g: "global_step_tf2 c =
      (case global_step c of (Inl e, c') \<Rightarrow> (Inl e, c') | (Inr t, c') \<Rightarrow> (numpy t, c'))"
    for c :: predictor
    by (simp add: global_step_tf2_def global_step_def split: sum.splits option.splits)
  have 5: "global_step p = (Inr t, p'') \<longrightarrow> global_step_tf2 p = (numpy t, p'')"
    and 6: "global_step p = (Inr (EagerTensor s xs), p'') \<longrightarrow>
            global_step_tf2 p = (Inr (NdArray s xs), p'')"
    and 7: "global_step b = (Inl e', b') \<longrightarrow> global_step_tf2 b = (Inl e', b')"
    by (simp_all add: g)
  from 1 2 3 4 5 6 7 show ?thesis by blast
qed

theorem predict_tf2_converts_witness:
  "predict (loaded_predictor echo_model) [] =
       (Inl (ValueError ''The two structures don't have the same nested structure.''),
        loaded_predictor echo_model)
   \<and> predict_tf2 (loaded_predictor echo_model) [] =
       (Inl (ValueError ''The two structures don't have the same nested structure.''),
        loaded_predictor echo_model)
   \<and> predict (loaded_predictor echo_model) unbatched_features =
       (Inr [(''x'', EagerTensor [1, 3] [1, 2, 3])], loaded_predictor echo_model)
   \<and> map_structure numpy [(''x'', EagerTensor [1, 3] [1, 2, 3])] =
       Inr [(''x'', NdArray [1, 3] [1, 2, 3])]
   \<and> predict_tf2 (loaded_predictor echo_model) unbatched_features =
       (Inr [(''x'', NdArray [1, 3] [1, 2, 3])], loaded_predictor echo_model)
   \<and> global_step (loaded_predictor echo_model) =
       (Inr (EagerTensor [] [42]), loaded_predictor echo_model)
   \<and> global_step_tf2 (loaded_predictor echo_model) =
       (Inr (NdArray [] [42]), loaded_predictor echo_model)
   \<and> global_step (init ''/models/1'' 600) = (Inl not_restored, init ''/models/1'' 600)
   \<and> global_step_tf2 (init ''/models/1'' 600) = (Inl not_restored, init ''/models/1'' 600)"
proof -
  have u: "global_step (init ''/models/1'' 600) = (Inl not_restored, init ''/models/1'' 600)"
    by (simp add: global_step_def assert_is_loaded_def init_def)
  show ?thesis
    using predict_tf2_converts [where a = "loaded_predictor echo_model" and gs = "[]"
        and e = "ValueError ''The two structures don't have the same nested structure.''"
        and a' = "loaded_predictor echo_model"
        and p = "loaded_predictor echo_model" and fs = unbatched_features
        and out = "[(''x'', EagerTensor [1, 3] [1, 2, 3])]"
        and p' = "loaded_predictor echo_model"
        and res = "[(''x'', NdArray [1, 3] [1, 2, 3])]"
        and t = "EagerTensor [] [42]" and s = "[]" and xs = "[42]"
        and p'' = "loaded_predictor echo_model"
        and b = "init ''/models/1'' 600" and e' = not_restored
        and b' = "init ''/models/1'' 600"]
    by (simp add: predict_echo_unbatched predict_echo_no_features global_step_echo u
        map_structure_def)
qed

subsection \<open>model\_version\<close>

lemma decimal_value_Nil: "decimal_value [] = 0"
  by (simp add: decimal_value_def)

lemma decimal_value_Cons:
  "decimal_value (c # cs) = digit_val c * 10 ^ length cs + decimal_value cs"
  by (simp add: decimal_value_def sum.lessThan_Suc_shift del: sum.lessThan_Suc)

lemma parse_digits_all_digits:
  "\<forall>c\<in>set ds. is_digit c \<Longrightarrow>
     parse_digits acc ds = Some (acc * 10 ^ length ds + decimal_value ds)"
  by (induction acc ds rule: parse_digits.induct)
     (simp_all add: decimal_value_Nil decimal_value_Cons algebra_simps)

lemma parse_digits_bad_char:
  "c \<in> set cs \<Longrightarrow> \<not> is_digit c \<Longrightarrow> c \<noteq> CHR ''_'' \<Longrightarrow> parse_digits acc cs = None"
  by (induction acc cs rule: parse_digits.induct) auto

lemma parse_unsigned_all_digits:
  "ds \<noteq> [] \<Longrightarrow> \<forall>c\<in>set ds. is_digit c \<Longrightarrow> parse_unsigned ds = Some (decimal_value ds)"
  by (cases ds) (simp_all add: parse_unsigned_def parse_digits_all_digits decimal_value_Cons)

lemma parse_unsigned_bad_char:
  "c \<in> set cs \<Longrightarrow> \<not> is_digit c \<Longrightarrow> c \<noteq> CHR ''_'' \<Longrightarrow> parse_unsigned cs = None"
  by (cases cs) (auto simp: parse_unsigned_def parse_digits_bad_char)

lemma digit_not_space: "is_digit c \<Longrightarrow> \<not> is_space c"
  by (auto simp: is_digit_def is_space_def Let_def)

lemma strip_no_space_ends:
  assumes "s \<noteq> []" and "\<not> is_space (hd s)" and "\<not> is_space (last s)"
  shows "strip s = s"
proof -
  have keep: "dropWhile is_space xs = xs" if "xs \<noteq> []" "\<not> is_space (hd xs)" for xs
    using that by (cases xs) auto
  have lead: "dropWhile is_space s = s"
    using assms by (intro keep) simp_all
  have trail: "dropWhile is_space (rev s) = rev s"
    using assms by (intro keep) (simp_all add: hd_rev)
  show ?thesis by (simp add: strip_def lead trail)
qed

lemma set_strip:
  assumes "c \<in> set s" and "\<not> is_space c"
  shows "c \<in> set (strip s)"
proof -
  have stays: "c \<in> set (dropWhile is_space xs)" if "c \<in> set xs" for xs
    using that assms(2) by (induction xs) auto
  show ?thesis
    unfolding strip_def
    using stays [of "rev (dropWhile is_space s)"] stays [OF assms(1)] by simp
qed

lemma py_int_all_digits:
  assumes "ds \<noteq> []" and "\<forall>c\<in>set ds. is_digit c"
  shows "py_int ds = Inr (int (decimal_value ds))"
proof -
  have "strip ds = ds"
    using assms by (intro strip_no_space_ends) (auto simp: digit_not_space)
  moreover have "hd ds \<noteq> CHR ''-''" "hd ds \<noteq> CHR ''+''"
    using assms by (cases ds; auto simp: is_digit_def)+
  ultimately show ?thesis
    using assms by (simp add: py_int_def parse_unsigned_all_digits)
qed

lemma py_int_bad_char:
  assumes "c \<in> set s" and "\<not> is_digit c" and "\<not> is_space c"
    and "c \<noteq> CHR ''_''" and "c \<noteq> CHR ''+''" and "c \<noteq> CHR ''-''"
  shows "py_int s = Inl (ValueError ''invalid literal for int() with base 10'')"
proof -
  have c: "c \<in> set (strip s)"
    using assms by (simp add: set_strip)
  then have ne: "strip s \<noteq> []" by auto
  have "c \<in> set (if hd (strip s) = CHR ''-'' \<or> hd (strip s) = CHR ''+''
                then tl (strip s) else strip s)"
    using c assms(5,6) by (cases "strip s") auto
  then show ?thesis
    using ne assms by (simp add: py_int_def Let_def parse_unsigned_bad_char)
qed

lemma py_int_empty: "py_int [] = Inl (ValueError ''invalid literal for int() with base 10'')"
  by (simp add: py_int_def strip_def parse_unsigned_def)

lemma basename_last_component:
  assumes "CHR ''/'' \<notin> set x"
  shows "basename (d @ ''/'' @ x) = x"
proof -
  have "takeWhile (\<lambda>c. c \<noteq> CHR ''/'') (rev x @ CHR ''/'' # rev d) =
        rev x @ takeWhile (\<lambda>c. c \<noteq> CHR ''/'') (CHR ''/'' # rev d)"
    using assms by (intro takeWhile_append2) auto
  then show ?thesis by (simp add: basename_def)
qed

lemma underscore_not_digit: "\<not> is_digit CHR ''_''"
  by (simp add: is_digit_def)

lemma sign_not_digit: "\<not> is_digit CHR ''-''" "\<not> is_digit CHR ''+''"
  by (simp_all add: is_digit_def)

text \<open>The digit loop, entered after a digit, against the description of a literal.\<close>

lemma parse_digits_spec:
  "parse_digits acc cs =
     (if (\<forall>c\<in>set cs. is_digit c \<or> c = CHR ''_'')
         \<and> (cs \<noteq> [] \<longrightarrow> is_digit (last cs))
         \<and> (CHR ''_'', CHR ''_'') \<notin> set (zip cs (tl cs))
      then Some (acc * 10 ^ length (filter is_digit cs) + decimal_value (filter is_digit cs))
      else None)"
proof (induction acc cs rule: parse_digits.induct)
  case (1 acc)
  then show ?case by (simp add: decimal_value_Nil)
next
  case (2 acc c)
  then show ?case
    by (auto simp: decimal_value_Nil decimal_value_Cons underscore_not_digit)
next
  case (3 acc c d cs)
  show ?case
  proof (cases "is_digit c")
    case True
    then have c: "c \<noteq> CHR ''_''" using underscore_not_digit by auto
    show ?thesis
      using True c 3(1) [OF True]
      by (simp add: decimal_value_Cons algebra_simps)
  next
    case False
    show ?thesis
    proof (cases "c = CHR ''_'' \<and> is_digit d")
      case True
      then have d: "d \<noteq> CHR ''_''" using underscore_not_digit by auto
      show ?thesis
        using True d False 3(2) [OF False True]
        by (cases cs)
           (simp_all add: decimal_value_Cons decimal_value_Nil algebra_simps
             underscore_not_digit)
    next
      case nd: False
      with False show ?thesis
        by (auto simp: underscore_not_digit)
    qed
  qed
qed

lemma parse_unsigned_spec:
  "parse_unsigned b =
     (if unsigned_literal b then Some (decimal_value (filter is_digit b)) else None)"
proof (cases b)
  case Nil
  then show ?thesis by (simp add: parse_unsigned_def unsigned_literal_def)
next
  case (Cons c cs)
  show ?thesis
  proof (cases "is_digit c")
    case True
    then have "c \<noteq> CHR ''_''" using underscore_not_digit by auto
    with True Cons show ?thesis
      by (cases cs)
         (auto simp: parse_unsigned_def unsigned_literal_def parse_digits_spec
           decimal_value_Cons decimal_value_Nil)
  next
    case False
    with Cons show ?thesis
      by (simp add: parse_unsigned_def unsigned_literal_def)
  qed
qed

lemma py_int_spec:
  "py_int s =
     (if int_literal s then Inr (literal_value s)
      else Inl (ValueError ''invalid literal for int() with base 10''))"
proof -
  define t where "t = strip s"
  show ?thesis
  proof (cases "t \<noteq> [] \<and> (hd t = CHR ''-'' \<or> hd t = CHR ''+'')")
    case True
    then obtain c r where t: "t = c # r" and c: "c = CHR ''-'' \<or> c = CHR ''+''"
      by (cases t) auto
    then have "filter is_digit t = filter is_digit r"
      using sign_not_digit by auto
    with t c show ?thesis
      unfolding py_int_def int_literal_def literal_value_def Let_def t_def [symmetric]
      by (auto simp: parse_unsigned_spec)
  next
    case False
    then show ?thesis
      unfolding py_int_def int_literal_def literal_value_def Let_def t_def [symmetric]
      by (auto simp: parse_unsigned_spec)
  qed
qed

text \<open>
  Claim C10. On a loaded predictor \<^verbatim>\<open>model_version\<close> is \<^verbatim>\<open>int\<close> of the base name \<open>b\<close> of
  the saved-model path, and the base name is the last component: what follows the last
  slash. When \<open>b\<close> is a valid integer literal the call returns its value, and when it is
  not the call raises ValueError and returns nothing. In particular: when \<open>b\<close> is a
  non-empty string of decimal digits, the value is the number the digits denote; when
  \<open>b\<close> is empty, or holds a character that is not a digit, a sign, an underscore or white
  space, the call raises. The instance is unchanged.
\<close>

theorem model_version_reads_basename:
  fixes p :: "'a predictor_scheme"
  assumes "model p \<noteq> None" and "b = basename (saved_model_path p)"
  shows "model_version p = (py_int b, p)
       \<and> model_version p =
           (if int_literal b then Inr (literal_value b)
            else Inl (ValueError ''invalid literal for int() with base 10''), p)
       \<and> (CHR ''/'' \<notin> set x \<and> saved_model_path p = d @ ''/'' @ x \<longrightarrow> b = x)
       \<and> (b \<noteq> [] \<and> (\<forall>c\<in>set b. is_digit c) \<longrightarrow>
            model_version p = (Inr (int (decimal_value b)), p))
       \<and> (b = [] \<or> (\<exists>c\<in>set b. \<not> is_digit c \<and> \<not> is_space c
                         \<and> c \<noteq> CHR ''_'' \<and> c \<noteq> CHR ''+'' \<and> c \<noteq> CHR ''-'') \<longrightarrow>
            model_version p =
              (Inl (ValueError ''invalid literal for int() with base 10''), p))"
proof -
  from assms(1) have loaded: "assert_is_loaded p = Inr ()"
    by (auto simp: assert_is_loaded_def split: option.splits)
  then have 1: "model_version p = (py_int b, p)"
    by (simp add: model_version_def assms(2))
  have 2: "CHR ''/'' \<notin> set x \<and> saved_model_path p = d @ ''/'' @ x \<longrightarrow> b = x"
    using basename_last_component [of x d] by (auto simp: assms(2))
  have 3: "b \<noteq> [] \<and> (\<forall>c\<in>set b. is_digit c) \<longrightarrow>
            model_version p = (Inr (int (decimal_value b)), p)"
    using py_int_all_digits [of b] by (simp add: 1)
  have 4: "b = [] \<or> (\<exists>c\<in>set b. \<not> is_digit c \<and> \<not> is_space c
                         \<and> c \<noteq> CHR ''_'' \<and> c \<noteq> CHR ''+'' \<and> c \<noteq> CHR ''-'') \<longrightarrow>
            model_version p =
              (Inl (ValueError ''invalid literal for int() with base 10''), p)"
    using py_int_bad_char [of _ b] py_int_empty by (auto simp: 1)
  have 5: "model_version p =
           (if int_literal b then Inr (literal_value b)
            else Inl (ValueError ''invalid literal for int() with base 10''), p)"
    using py_int_spec [of b] by (simp add: 1)
  from 1 2 3 4 5 show ?thesis by blast
qed

theorem model_version_reads_basename_witness:
  "model (versioned_predictor ''/models/42'') \<noteq> None
   \<and> basename (saved_model_path (versioned_predictor ''/models/42'')) = ''42''
   \<and> decimal_value ''42'' = 42
   \<and> model_version (versioned_predictor ''/models/42'') =
       (Inr 42, versioned_predictor ''/models/42'')
   \<and> model (versioned_predictor ''/models/latest'') \<noteq> None
   \<and> basename (saved_model_path (versioned_predictor ''/models/latest'')) = ''latest''
   \<and> model_version (versioned_predictor ''/models/latest'') =
       (Inl (ValueError ''invalid literal for int() with base 10''),
        versioned_predictor ''/models/latest'')
   \<and> basename (saved_model_path (versioned_predictor ''/models/42/'')) = []
   \<and> model_version (versioned_predictor ''/models/42/'') =
       (Inl (ValueError ''invalid literal for int() with base 10''),
        versioned_predictor ''/models/42/'')"
proof -
  have m: "model (versioned_predictor path) \<noteq> None" for path
    by (simp add: versioned_predictor_def loaded_predictor_def)
  have b1: "''42'' = basename (saved_model_path (versioned_predictor ''/models/42''))"
    and b2: "''latest'' = basename (saved_model_path (versioned_predictor ''/models/latest''))"
    and b3: "[] = basename (saved_model_path (versioned_predictor ''/models/42/''))"
    by (simp_all add: versioned_predictor_def basename_def)
  have v: "decimal_value ''42'' = 42"
    by (simp add: decimal_value_Cons decimal_value_Nil digit_val_def)
  have bad: "\<exists>c\<in>set ''latest''. \<not> is_digit c \<and> \<not> is_space c
                \<and> c \<noteq> CHR ''_'' \<and> c \<noteq> CHR ''+'' \<and> c \<noteq> CHR ''-''"
    by (simp add: is_digit_def is_space_def)
  have good: "''42'' \<noteq> [] \<and> (\<forall>c\<in>set ''42''. is_digit c)"
    by (simp add: is_digit_def)
  from good model_version_reads_basename [OF m b1, of "''42''" "''/models''"]
  have r1: "model_version (versioned_predictor ''/models/42'') =
      (Inr (int (decimal_value ''42'')), versioned_predictor ''/models/42'')"
    by blast
  from bad model_version_reads_basename [OF m b2, of "''latest''" "''/models''"]
  have r2: "model_version (versioned_predictor ''/models/latest'') =
      (Inl (ValueError ''invalid literal for int() with base 10''),
       versioned_predictor ''/models/latest'')"
    by blast
  from model_version_reads_basename [OF m b3, of "[]" "''/models/42''"]
  have r3: "model_version (versioned_predictor ''/models/42/'') =
      (Inl (ValueError ''invalid literal for int() with base 10''),
       versioned_predictor ''/models/42/'')"
    by blast
  show ?thesis
    using m b1 [symmetric] b2 [symmetric] b3 [symmetric] v r1 r2 r3
    by simp
qed

end
